theory Spec2Isabelle
  imports Main
begin

section \<open>PrjTrx: a tray icon that tracks the active project\<close>

text \<open>
  A shallow embedding of \<^verbatim>\<open>prj_pystray.py\<close>. Python exceptions are values of
  \<open>error\<close>; a function that can raise returns \<open>error + 'a\<close> (\<open>Inl\<close> the
  exception). The object \<^verbatim>\<open>self\<close> and the outside world (console, log file) are
  records passed in and returned.
\<close>

datatype error = IndexError | KeyError | StopIteration | ValueError | OSError | AttributeError

subsection \<open>Strings: \<^verbatim>\<open>str.split\<close> and \<^verbatim>\<open>str.join\<close>\<close>

text \<open>
  \<^verbatim>\<open>s.split(sep)\<close> for a one-character separator scans \<open>s\<close> once; \<open>cur\<close> is the
  segment read so far. The result always has at least one segment
  (\<^verbatim>\<open>''.split('-') == ['']\<close>).
\<close>

fun split_scan :: "char \<Rightarrow> string \<Rightarrow> string \<Rightarrow> string list" where
  "split_scan sep cur [] = [cur]"
| "split_scan sep cur (c # cs) =
     (if c = sep then cur # split_scan sep [] cs else split_scan sep (cur @ [c]) cs)"

definition split_str :: "char \<Rightarrow> string \<Rightarrow> string list" where
  "split_str sep s = split_scan sep [] s"

text \<open>\<^verbatim>\<open>sep.join(parts)\<close>.\<close>

fun join_str :: "string \<Rightarrow> string list \<Rightarrow> string" where
  "join_str sep [] = []"
| "join_str sep [s] = s"
| "join_str sep (s # t # ss) = s @ sep @ join_str sep (t # ss)"

subsection \<open>Identifiers\<close>

text \<open>
  \<^verbatim>\<open>
  def get_id_name(prj: str) -> tuple[str, str]:
      parts = prj.split('-')
      return (parts[0], parts[-1])
  \<close>
  Indexing an empty list raises \<^verbatim>\<open>IndexError\<close>.
\<close>

definition get_id_name :: "string \<Rightarrow> error + (string \<times> string)" where
  "get_id_name prj =
     (let parts = split_str CHR ''-'' prj in
      case parts of
        [] \<Rightarrow> Inl IndexError
      | p # ps \<Rightarrow> Inr (p, last parts))"

subsection \<open>Paths and icon files\<close>

text \<open>
  The part of \<^verbatim>\<open>pathlib\<close> the program uses, for relative POSIX paths (every path
  the program builds starts with the letter \<open>m\<close> of the prefix, so it has no root):
  a path is the list of its components, \<^verbatim>\<open>Path(s)\<close> drops empty and \<open>.\<close>
  components, and \<^verbatim>\<open>str\<close> joins the components with \<open>/\<close>.
\<close>

type_synonym path = string

definition Path :: "string \<Rightarrow> string list" where
  "Path s = filter (\<lambda>c. c \<noteq> [] \<and> c \<noteq> ''.'') (split_str CHR ''/'' s)"

definition str_Path :: "string list \<Rightarrow> path" where
  "str_Path parts = (if parts = [] then ''.'' else join_str ''/'' parts)"

text \<open>
  \<^verbatim>\<open>PurePath.suffix\<close> of a final component (CPython 3.10 to 3.13): the text from the
  last dot on, when that dot is neither the first nor the last character.
\<close>

definition suffix_Path :: "string \<Rightarrow> string" where
  "suffix_Path nm =
     (let after = rev (takeWhile (\<lambda>c. c \<noteq> CHR ''.'') (rev nm)) in
      if CHR ''.'' \<in> set nm \<and> after \<noteq> [] \<and> length after + 1 < length nm
      then CHR ''.'' # after else [])"

text \<open>
  \<^verbatim>\<open>PurePath.with_suffix(suffix)\<close>: raises \<^verbatim>\<open>ValueError\<close> on a suffix that holds a
  separator, does not start with a dot or is a lone dot, and on a path with no final
  component; otherwise it replaces the final component's suffix, or appends when the
  component has none.
\<close>

definition with_suffix :: "string list \<Rightarrow> string \<Rightarrow> error + string list" where
  "with_suffix parts suf =
     (if CHR ''/'' \<in> set suf then Inl ValueError
      else if (suf \<noteq> [] \<and> hd suf \<noteq> CHR ''.'') \<or> suf = ''.'' then Inl ValueError
      else case rev parts of
        [] \<Rightarrow> Inl ValueError
      | nm # front \<Rightarrow>
          (let old_suffix = suffix_Path nm;
               nm' = (if old_suffix = [] then nm @ suf
                      else take (length nm - length old_suffix) nm @ suf)
           in Inr (rev front @ [nm'])))"

text \<open>
  The file system as \<^verbatim>\<open>Path.exists\<close> sees it, with paths relative to the working
  directory: the paths that exist, and the paths on which \<^verbatim>\<open>stat\<close> fails with an
  error that \<^verbatim>\<open>exists\<close> does not swallow (CPython 3.10 to 3.13 swallow only
  \<^verbatim>\<open>ENOENT\<close>, \<^verbatim>\<open>ENOTDIR\<close>, \<^verbatim>\<open>EBADF\<close> and \<^verbatim>\<open>ELOOP\<close>; a name that is too long or
  a directory that may not be searched raises \<^verbatim>\<open>OSError\<close>).
\<close>

record filesystem =
  files :: "path set"
  stat_fails :: "path set"

definition exists_Path :: "filesystem \<Rightarrow> path \<Rightarrow> error + bool" where
  "exists_Path fs f = (if f \<in> stat_fails fs then Inl OSError else Inr (f \<in> files fs))"

text \<open>
  \<^verbatim>\<open>
  def get_image_path(project_name) -> Path|None:
      prefix = 'myIcon_'
      icon_ext = '.ico'
      f = Path(prefix+project_name)
      f = f.with_suffix(icon_ext)
      if f.exists(): return f
      return None
  \<close>
\<close>

definition get_image_path :: "filesystem \<Rightarrow> string \<Rightarrow> error + path option" where
  "get_image_path fs project_name =
     (let pre = ''myIcon_''; icon_ext = ''.ico''; f = Path (pre @ project_name) in
      case with_suffix f icon_ext of
        Inl e \<Rightarrow> Inl e
      | Inr f' \<Rightarrow>
          (case exists_Path fs (str_Path f') of
             Inl e \<Rightarrow> Inl e
           | Inr found \<Rightarrow> if found then Inr (Some (str_Path f')) else Inr None))"

subsection \<open>Projects\<close>

text \<open>
  A work-package is the pair \<^verbatim>\<open>(wp_name, wp_icon)\<close> stored under its id. The fields
  \<^verbatim>\<open>id\<close>, \<^verbatim>\<open>name\<close> and \<^verbatim>\<open>icon\<close> of \<^verbatim>\<open>Project\<close> carry the suffix \<open>_prj\<close>. An
  \<^verbatim>\<open>OrderedDict\<close> is an association list in insertion order; \<open>od_set\<close> is
  \<^verbatim>\<open>d[k] = v\<close>, which overwrites in place or appends.
\<close>

type_synonym workpackage = "string \<times> path option"

record Project =
  id_prj :: string
  name_prj :: string
  icon_prj :: "path option"
  workpackages :: "(string \<times> workpackage) list"

fun od_set :: "'k \<Rightarrow> 'v \<Rightarrow> ('k \<times> 'v) list \<Rightarrow> ('k \<times> 'v) list" where
  "od_set k v [] = [(k, v)]"
| "od_set k v ((k', v') # d) = (if k' = k then (k, v) # d else (k', v') # od_set k v d)"

text \<open>The loop of \<^verbatim>\<open>Project.__init__\<close> over the work-package identifiers.\<close>

fun workpackages_loop ::
  "filesystem \<Rightarrow> string list \<Rightarrow> (string \<times> workpackage) list
    \<Rightarrow> error + (string \<times> workpackage) list" where
  "workpackages_loop fs [] wps = Inr wps"
| "workpackages_loop fs (wp # rest) wps =
     (case get_id_name wp of
        Inl e \<Rightarrow> Inl e
      | Inr (wp_id, wp_name) \<Rightarrow>
          (case get_image_path fs wp_name of
             Inl e \<Rightarrow> Inl e
           | Inr wp_icon \<Rightarrow> workpackages_loop fs rest (od_set wp_id (wp_name, wp_icon) wps)))"

definition Project_init :: "filesystem \<Rightarrow> string \<Rightarrow> string list \<Rightarrow> error + Project" where
  "Project_init fs identifier wp_idents =
     (case get_id_name identifier of
        Inl e \<Rightarrow> Inl e
      | Inr (i, n) \<Rightarrow>
          (case get_image_path fs n of
             Inl e \<Rightarrow> Inl e
           | Inr ic \<Rightarrow>
               (case workpackages_loop fs wp_idents [] of
                  Inl e \<Rightarrow> Inl e
                | Inr wps \<Rightarrow>
                    Inr \<lparr>id_prj = i, name_prj = n, icon_prj = ic, workpackages = wps\<rparr>)))"

text \<open>
  \<^verbatim>\<open>
  def get_wp_icon(self, key=None):
      if key in self.workpackages:
          icon = self.workpackages[key][1]
          return self.icon if icon is None else icon
      return self.icon
  \<close>
  The key \<^verbatim>\<open>None\<close> is never a work-package id.
\<close>

definition get_wp_icon :: "Project \<Rightarrow> string option \<Rightarrow> path option" where
  "get_wp_icon p key =
     (case key of
        None \<Rightarrow> icon_prj p
      | Some k \<Rightarrow>
          (case map_of (workpackages p) k of
             Some (wp_name, icon) \<Rightarrow> (case icon of None \<Rightarrow> icon_prj p | Some i \<Rightarrow> Some i)
           | None \<Rightarrow> icon_prj p))"

text \<open>
  \<^verbatim>\<open>
  def get_id(self, wp=None):
      if wp is None:
          if not self.workpackages:
              return self.id
          default_wp = next(iter(self.workpackages))
          return f'{self.id}:{default_wp}'
      return f'{self.id}:{wp}'
  \<close>
\<close>

definition get_id :: "Project \<Rightarrow> string option \<Rightarrow> string" where
  "get_id p wp =
     (case wp of
        None \<Rightarrow>
          (case workpackages p of
             [] \<Rightarrow> id_prj p
           | (default_wp, _) # _ \<Rightarrow> id_prj p @ '':'' @ default_wp)
      | Some w \<Rightarrow> id_prj p @ '':'' @ w)"

subsection \<open>The catalog and the default selection\<close>

type_synonym catalog = "(string \<times> Project) list"

text \<open>
  A selection key is a Python string (a project key) or a pair of strings (project key,
  work-package id); \<^verbatim>\<open>isinstance(key, tuple)\<close> tells them apart.
\<close>

datatype key = ProjectOnly string | ProjectWorkPackage string string

text \<open>
  The main program's loop
  \<^verbatim>\<open>
  projects = OrderedDict()
  for k, v in conf.items():
      p = Project(k, v)
      projects[p.id] = p
  \<close>
\<close>

fun projects_loop ::
  "filesystem \<Rightarrow> (string \<times> string list) list \<Rightarrow> catalog \<Rightarrow> error + catalog" where
  "projects_loop fs [] projects = Inr projects"
| "projects_loop fs ((k, v) # rest) projects =
     (case Project_init fs k v of
        Inl e \<Rightarrow> Inl e
      | Inr p \<Rightarrow> projects_loop fs rest (od_set (id_prj p) p projects))"

definition load_projects :: "filesystem \<Rightarrow> (string \<times> string list) list \<Rightarrow> error + catalog" where
  "load_projects fs conf = projects_loop fs conf []"

text \<open>
  \<^verbatim>\<open>
  first_prj = next(iter(projects.values()))
  if len(first_prj.workpackages) > 1:
      first_wp = next(iter(first_prj.workpackages))
      default = (first_prj.id, first_wp)
  else:
      default = first_prj.name
  \<close>
  \<^verbatim>\<open>next\<close> on an exhausted iterator raises \<^verbatim>\<open>StopIteration\<close>.
\<close>

definition default_key :: "catalog \<Rightarrow> error + key" where
  "default_key projects =
     (case projects of
        [] \<Rightarrow> Inl StopIteration
      | (_, first_prj) # _ \<Rightarrow>
          if length (workpackages first_prj) > 1 then
            (case workpackages first_prj of
               [] \<Rightarrow> Inl StopIteration
             | (first_wp, _) # _ \<Rightarrow> Inr (ProjectWorkPackage (id_prj first_prj) first_wp))
          else Inr (ProjectOnly (name_prj first_prj)))"

text \<open>
  \<^verbatim>\<open>
  def get_project(self, key):
      project = None
      wp = None
      if isinstance(key, tuple):
          project = key[0]
          wp = key[1]
      else:
          project = key
      return self.projects[project], wp
  \<close>
  A missing dictionary key raises \<^verbatim>\<open>KeyError\<close>.
\<close>

definition get_project :: "catalog \<Rightarrow> key \<Rightarrow> error + (Project \<times> string option)" where
  "get_project projects k =
     (let (project, wp) = (case k of
                              ProjectWorkPackage a b \<Rightarrow> (a, Some b)
                            | ProjectOnly a \<Rightarrow> (a, None))
      in case map_of projects project of
           None \<Rightarrow> Inl KeyError
         | Some p \<Rightarrow> Inr (p, wp))"

subsection \<open>The clock, the console and the log file\<close>

text \<open>
  \<^verbatim>\<open>datetime.now()\<close> is an input: the local time read when a record is written.
  \<open>strftime\<close> is \<^verbatim>\<open>time.strftime('%Y-%m-%d %H:%M:%S')\<close>, with the year on four
  digits (years 1000 to 9999) and every other field on two.
\<close>

record datetime =
  year :: nat
  month :: nat
  day :: nat
  hour :: nat
  minute :: nat
  second :: nat

definition digit :: "nat \<Rightarrow> char" where
  "digit n = ''0123456789'' ! (n mod 10)"

definition pad2 :: "nat \<Rightarrow> string" where
  "pad2 n = [digit (n div 10), digit n]"

definition pad4 :: "nat \<Rightarrow> string" where
  "pad4 n = [digit (n div 1000), digit (n div 100), digit (n div 10), digit n]"

definition strftime :: "datetime \<Rightarrow> string" where
  "strftime t = pad4 (year t) @ ''-'' @ pad2 (month t) @ ''-'' @ pad2 (day t) @ '' ''
     @ pad2 (hour t) @ '':'' @ pad2 (minute t) @ '':'' @ pad2 (second t)"

text \<open>
  How the file at \<^verbatim>\<open>self.logfile\<close> takes an append: it accepts it; \<^verbatim>\<open>open\<close> raises
  \<^verbatim>\<open>OSError\<close> and the file is untouched; or the write (or the flush when the
  \<^verbatim>\<open>with\<close> block closes the file) raises \<^verbatim>\<open>OSError\<close> after the given number of
  characters have reached the file.
\<close>

datatype sink_behaviour = Accepts | OpenFails | WriteFails nat

text \<open>
  The world outside the object: the lines printed so far, the text of the log file, how
  the log file takes the next append, and the image files that \<^verbatim>\<open>Image.open\<close> can
  open and decode at this moment.
\<close>

record world =
  console :: "string list"
  log_sink :: string
  sink :: sink_behaviour
  openable :: "path set"

definition py_print :: "string \<Rightarrow> world \<Rightarrow> world" where
  "py_print text w = w\<lparr>console := console w @ [text]\<rparr>"

text \<open>
  \<^verbatim>\<open>
  def log_change(self, info):
      time = datetime.now()
      time_fmt = time.strftime('%Y-%m-%d %H:%M:%S')
      log_text = f'{time_fmt} -- changed <{info}>'
      print(log_text)
      with open(self.logfile, 'at') as f:
          f.write(log_text + '\n')
  \<close>
  The result is the exception raised, if any, and the world afterwards.
\<close>

definition log_change :: "datetime \<Rightarrow> string \<Rightarrow> world \<Rightarrow> error option \<times> world" where
  "log_change now info w =
     (let time_fmt = strftime now;
          log_text = time_fmt @ '' -- changed <'' @ info @ ''>'';
          w1 = py_print log_text w
      in case sink w1 of
           Accepts \<Rightarrow> (None, w1\<lparr>log_sink := log_sink w1 @ log_text @ ''\<newline>''\<rparr>)
         | OpenFails \<Rightarrow> (Some OSError, w1)
         | WriteFails n \<Rightarrow>
             (Some OSError, w1\<lparr>log_sink := log_sink w1 @ take n (log_text @ ''\<newline>'')\<rparr>))"

subsection \<open>The menu\<close>

text \<open>
  A menu entry: a radio item with its text and the key its \<^verbatim>\<open>on_click\<close> and
  \<^verbatim>\<open>is_selected\<close> closures hold, a submenu, the separator, or the Quit item with
  its text and the trigger its \<^verbatim>\<open>quit\<close> closure holds.
\<close>

datatype menu_item =
    MenuItem string key
  | SubMenu string "menu_item list"
  | SEPARATOR
  | QuitItem string string

text \<open>The inner and the outer loop of \<^verbatim>\<open>make_menu\<close>, each appending to its list.\<close>

fun submenu_loop ::
  "string \<Rightarrow> (string \<times> workpackage) list \<Rightarrow> menu_item list \<Rightarrow> menu_item list" where
  "submenu_loop pid [] submenu_items = submenu_items"
| "submenu_loop pid ((wp_id, wp) # rest) submenu_items =
     submenu_loop pid rest
       (submenu_items @ [MenuItem (fst wp) (ProjectWorkPackage pid wp_id)])"

fun menu_loop :: "catalog \<Rightarrow> menu_item list \<Rightarrow> menu_item list" where
  "menu_loop [] menu_items = menu_items"
| "menu_loop ((pid, p) # rest) menu_items =
     (if length (workpackages p) > 1
      then menu_loop rest
             (menu_items @ [SubMenu (name_prj p) (submenu_loop pid (workpackages p) [])])
      else menu_loop rest (menu_items @ [MenuItem (name_prj p) (ProjectOnly pid)]))"

definition make_menu :: "catalog \<Rightarrow> menu_item list" where
  "make_menu cat = menu_loop cat [] @ [SEPARATOR] @ [QuitItem ''Quit'' ''Menu Exit'']"

subsection \<open>The tray object\<close>

text \<open>
  An opened image is known by the path it was read from. \<^verbatim>\<open>Image.open(None)\<close>
  raises (\<^verbatim>\<open>AttributeError\<close>: \<^verbatim>\<open>None\<close> has no \<^verbatim>\<open>read\<close>), and \<^verbatim>\<open>Image.open\<close> of
  a file that is missing or is not an image raises \<^verbatim>\<open>OSError\<close>
  (\<^verbatim>\<open>FileNotFoundError\<close>, \<^verbatim>\<open>UnidentifiedImageError\<close>).
\<close>

datatype image = IconImage path

definition Image_open :: "world \<Rightarrow> path option \<Rightarrow> error + image" where
  "Image_open w fp =
     (case fp of
        None \<Rightarrow> Inl AttributeError
      | Some f \<Rightarrow> if f \<in> openable w then Inr (IconImage f) else Inl OSError)"

text \<open>
  The fields of \<^verbatim>\<open>PrjTray\<close>; \<open>tray_icon\<close> is \<^verbatim>\<open>self.tray.icon\<close> and \<open>tray_stopped\<close>
  records \<^verbatim>\<open>self.tray.stop()\<close>.
\<close>

record PrjTray =
  project :: key
  projects :: catalog
  menu :: "menu_item list"
  fallback_icon :: image
  tray_icon :: image
  tray_stopped :: bool

definition is_selected :: "key \<Rightarrow> PrjTray \<Rightarrow> bool" where
  "is_selected k t = (k = project t)"

text \<open>
  \<^verbatim>\<open>
  def change_project(self, new_key):
      self.project = new_key
      p, wp = self.get_project(new_key)
      icon_path = p.get_wp_icon(wp)
      icon = self.fallback_icon
      if icon_path is not None:
          icon = Image.open(icon_path)
      else:
          print('Icon fallback')
      self.tray.icon = icon
      info = p.get_id(wp)
      self.log_change(info)
  \<close>
  An exception leaves the object and the world as they were when it was raised.
\<close>

definition change_project ::
  "key \<Rightarrow> datetime \<Rightarrow> PrjTray \<times> world \<Rightarrow> error option \<times> PrjTray \<times> world" where
  "change_project new_key now tw =
     (let (t, w) = tw;
          t1 = t\<lparr>project := new_key\<rparr>
      in case get_project (projects t1) new_key of
           Inl e \<Rightarrow> (Some e, t1, w)
         | Inr (p, wp) \<Rightarrow>
             (let icon_path = get_wp_icon p wp in
              case (case icon_path of
                      Some f \<Rightarrow> (Image_open w (Some f), w)
                    | None \<Rightarrow> (Inr (fallback_icon t1), py_print ''Icon fallback'' w)) of
                (Inl e, w1) \<Rightarrow> (Some e, t1, w1)
              | (Inr icon, w1) \<Rightarrow>
                  (let t2 = t1\<lparr>tray_icon := icon\<rparr>;
                       info = get_id p wp;
                       (err, w2) = log_change now info w1
                   in (err, t2, w2))))"

text \<open>
  \<^verbatim>\<open>
  def on_click(self, key):
      def inner(icon, item):
          if self.project == key:
              print('No change')
              return
          self.change_project(key)
      return inner
  \<close>
\<close>

definition on_click ::
  "key \<Rightarrow> datetime \<Rightarrow> PrjTray \<times> world \<Rightarrow> error option \<times> PrjTray \<times> world" where
  "on_click k now tw =
     (let (t, w) = tw in
      if project t = k then (None, t, py_print ''No change'' w)
      else change_project k now (t, w))"

text \<open>
  \<^verbatim>\<open>
  def quit(self, trigger = ''):
      def inner(icon, item):
          self.log_change(f'QUIT ({trigger})')
          self.tray.stop()
      return inner
  \<close>
\<close>

definition quit ::
  "string \<Rightarrow> datetime \<Rightarrow> PrjTray \<times> world \<Rightarrow> error option \<times> PrjTray \<times> world" where
  "quit trigger now tw =
     (let (t, w) = tw in
      case log_change now (''QUIT ('' @ trigger @ '')'') w of
        (Some e, w1) \<Rightarrow> (Some e, t, w1)
      | (None, w1) \<Rightarrow> (None, t\<lparr>tray_stopped := True\<rparr>, w1))"

text \<open>
  \<^verbatim>\<open>
  def __init__(self, logfile, projects, default) -> None:
      self.project = default
      self.logfile = logfile
      self.projects = projects
      self.menu = self.make_menu()
      p, wp = self.get_project(default)
      image = Image.open(p.get_wp_icon(wp))
      self.fallback_icon = image
      self.tray = pystray.Icon('PRJTRX', image, menu = self.menu)
      self.change_project(default)
  \<close>
  An exception in the constructor leaves no object; \<open>dflt\<close> is \<^verbatim>\<open>default\<close>.
\<close>

definition PrjTray_init ::
  "catalog \<Rightarrow> key \<Rightarrow> datetime \<Rightarrow> world \<Rightarrow> (error + PrjTray) \<times> world" where
  "PrjTray_init cat dflt now w =
     (let m = make_menu cat in
      case get_project cat dflt of
        Inl e \<Rightarrow> (Inl e, w)
      | Inr (p, wp) \<Rightarrow>
          (case Image_open w (get_wp_icon p wp) of
             Inl e \<Rightarrow> (Inl e, w)
           | Inr img \<Rightarrow>
               (let t = \<lparr>project = dflt, projects = cat, menu = m,
                         fallback_icon = img, tray_icon = img, tray_stopped = False\<rparr>
                in case change_project dflt now (t, w) of
                     (Some e, t', w') \<Rightarrow> (Inl e, w')
                   | (None, t', w') \<Rightarrow> (Inr t', w'))))"

text \<open>
  The main program from the parsed configuration to the constructed tray: build the
  catalog, compute the default, construct \<^verbatim>\<open>PrjTray(logfile, projects, default)\<close>.
\<close>

definition main_start ::
  "filesystem \<Rightarrow> (string \<times> string list) list \<Rightarrow> datetime \<Rightarrow> world
    \<Rightarrow> (error + PrjTray) \<times> world" where
  "main_start fs conf now w =
     (case load_projects fs conf of
        Inl e \<Rightarrow> (Inl e, w)
      | Inr cat \<Rightarrow>
          (case default_key cat of
             Inl e \<Rightarrow> (Inl e, w)
           | Inr dflt \<Rightarrow> PrjTray_init cat dflt now w))"

subsection \<open>The specification's vocabulary\<close>





text \<open>
  A final path component has no suffix when it holds no dot, or its last dot is its last
  or its first character.
\<close>

definition no_suffix :: "string \<Rightarrow> bool" where
  "no_suffix nm =
     (CHR ''.'' \<notin> set nm \<or> last nm = CHR ''.'' \<or> (hd nm = CHR ''.'' \<and> CHR ''.'' \<notin> set (tl nm)))"

text \<open>
  What probing a candidate file gives: the path when it exists, nothing when it does
  not, and \<^verbatim>\<open>OSError\<close> when the existence check itself fails.
\<close>

definition probe :: "filesystem \<Rightarrow> path \<Rightarrow> error + path option" where
  "probe fs f =
     (if f \<in> stat_fails fs then Inl OSError
      else if f \<in> files fs then Inr (Some f) else Inr None)"










text \<open>
  The menu in the specification's words: per project, in catalog order, a leaf keyed by
  the project's id when it has at most one work-package, else a submenu with one leaf
  per work-package keyed by project id and work-package id; then a separator and Quit.
\<close>

definition menu_entry :: "Project \<Rightarrow> menu_item" where
  "menu_entry p =
     (if length (workpackages p) \<le> 1 then MenuItem (name_prj p) (ProjectOnly (id_prj p))
      else SubMenu (name_prj p)
             (map (\<lambda>(wid, wp). MenuItem (fst wp) (ProjectWorkPackage (id_prj p) wid))
                (workpackages p)))"

definition BuildMenu :: "catalog \<Rightarrow> menu_item list" where
  "BuildMenu cat = map (\<lambda>(pid, p). menu_entry p) cat @ [SEPARATOR, QuitItem ''Quit'' ''Menu Exit'']"

text \<open>
  Every catalog the main program builds stores each project under its own id.
\<close>

definition keyed_by_id :: "catalog \<Rightarrow> bool" where
  "keyed_by_id cat = list_all (\<lambda>(pid, p). pid = id_prj p) cat"

subsection \<open>A worked example\<close>

text \<open>
  The configuration \<^verbatim>\<open>{"100-Alpha": ["1-Setup", "2-Build"], "200-Beta": []}\<close> with
  icon files for Alpha and Build, the catalog it loads to, and the tray once it has
  started; a world with an empty console and log, a log file that accepts appends, and
  both icon files openable.
\<close>

definition example_conf :: "(string \<times> string list) list" where
  "example_conf = [(''100-Alpha'', [''1-Setup'', ''2-Build'']), (''200-Beta'', [])]"

definition example_fs :: filesystem where
  "example_fs = \<lparr>files = {''myIcon_Alpha.ico'', ''myIcon_Build.ico''}, stat_fails = {}\<rparr>"

definition example_catalog :: catalog where
  "example_catalog =
     [(''100'', \<lparr>id_prj = ''100'', name_prj = ''Alpha'', icon_prj = Some ''myIcon_Alpha.ico'',
                workpackages = [(''1'', ''Setup'', None),
                                (''2'', ''Build'', Some ''myIcon_Build.ico'')]\<rparr>),
      (''200'', \<lparr>id_prj = ''200'', name_prj = ''Beta'', icon_prj = None, workpackages = []\<rparr>)]"

definition example_tray :: PrjTray where
  "example_tray =
     \<lparr>project = ProjectWorkPackage ''100'' ''1'', projects = example_catalog,
      menu = make_menu example_catalog, fallback_icon = IconImage ''myIcon_Alpha.ico'',
      tray_icon = IconImage ''myIcon_Alpha.ico'', tray_stopped = False\<rparr>"

definition example_now :: datetime where
  "example_now = \<lparr>year = 2023, month = 4, day = 9, hour = 8, minute = 5, second = 59\<rparr>"

definition example_world :: world where
  "example_world =
     \<lparr>console = [], log_sink = [], sink = Accepts,
      openable = {''myIcon_Alpha.ico'', ''myIcon_Build.ico''}\<rparr>"

section \<open>Properties\<close>

subsection \<open>Splitting and joining\<close>

lemma split_scan_not_Nil: "split_scan sep cur s \<noteq> []"
  by (induction s arbitrary: cur) auto

lemma split_scan_no_sep:
  "sep \<notin> set s \<Longrightarrow> split_scan sep cur s = [cur @ s]"
  by (induction s arbitrary: cur) auto

lemma split_scan_append_sep:
  "sep \<notin> set s \<Longrightarrow> split_scan sep cur (s @ sep # r) = (cur @ s) # split_scan sep [] r"
  by (induction s arbitrary: cur) auto

lemma split_str_join:
  assumes "ss \<noteq> []" and "\<forall>s \<in> set ss. sep \<notin> set s"
  shows "split_str sep (join_str [sep] ss) = ss"
  using assms
proof (induction "[sep]" ss rule: join_str.induct)
  case 1
  then show ?case by simp
next
  case (2 s)
  then show ?case by (simp add: split_str_def split_scan_no_sep)
next
  case (3 s t ss)
  then show ?case by (simp add: split_str_def split_scan_append_sep)
qed

lemma get_id_name_join:
  assumes "ss \<noteq> []" and "\<forall>s \<in> set ss. CHR ''-'' \<notin> set s"
  shows "get_id_name (join_str ''-'' ss) = Inr (hd ss, last ss)"
proof -
  have "split_str CHR ''-'' (join_str ''-'' ss) = ss"
    using split_str_join [OF assms] by simp
  with assms(1) show ?thesis
    by (cases ss) (simp_all add: get_id_name_def)
qed

lemma get_id_name_total: "\<exists>i n. get_id_name s = Inr (i, n)"
proof -
  obtain p ps where "split_str CHR ''-'' s = p # ps"
    using split_scan_not_Nil [of "CHR ''-''" "[]" s]
    by (cases "split_str CHR ''-'' s") (auto simp: split_str_def)
  then show ?thesis by (simp add: get_id_name_def)
qed

text \<open>
  Claim C6. Parsing an identifier never raises; an identifier made of dash-free segments
  joined by \<open>-\<close> yields its first segment as the id and its last segment as the display
  name, whatever the middle segments are; a dash-free string is both its id and its
  name; and \<open>A-B-C\<close>, \<open>A-B\<close>, \<open>X\<close> parse to \<open>(A, C)\<close>, \<open>(A, B)\<close>, \<open>(X, X)\<close>.
\<close>

theorem get_id_name_first_last:
  "(\<exists>i n. get_id_name s = Inr (i, n))
   \<and> (ss \<noteq> [] \<and> (\<forall>x \<in> set ss. CHR ''-'' \<notin> set x)
        \<longrightarrow> get_id_name (join_str ''-'' ss) = Inr (hd ss, last ss))
   \<and> (CHR ''-'' \<notin> set s \<longrightarrow> get_id_name s = Inr (s, s))
   \<and> get_id_name ''A-B-C'' = Inr (''A'', ''C'')
   \<and> get_id_name ''A-B'' = Inr (''A'', ''B'')
   \<and> get_id_name ''X'' = Inr (''X'', ''X'')"
proof -
  have nodash: "get_id_name s = Inr (s, s)" if "CHR ''-'' \<notin> set s"
    using that by (simp add: get_id_name_def split_str_def split_scan_no_sep)
  have ex: "get_id_name ''A-B-C'' = Inr (''A'', ''C'')"
    "get_id_name ''A-B'' = Inr (''A'', ''B'')"
    "get_id_name ''X'' = Inr (''X'', ''X'')"
    by (simp_all add: get_id_name_def split_str_def)
  show ?thesis
    using get_id_name_total [of s] get_id_name_join [of ss] nodash ex by blast
qed

theorem get_id_name_first_last_witness:
  "get_id_name (join_str ''-'' [''100'', ''x'', ''Alpha'']) = Inr (''100'', ''Alpha'')
   \<and> get_id_name ''Alpha'' = Inr (''Alpha'', ''Alpha'')"
  using get_id_name_first_last [of "''Alpha''" "[''100'', ''x'', ''Alpha'']"]
  by simp

subsection \<open>Icon files\<close>

lemma split_scan_prefix:
  "sep \<notin> set p \<Longrightarrow> split_scan sep cur (p @ x) = split_scan sep (cur @ p) x"
  by (induction p arbitrary: cur) auto

lemma split_scan_join:
  assumes "\<forall>x \<in> set (s # rest). sep \<notin> set x"
  shows "split_scan sep cur (join_str [sep] (s # rest)) = (cur @ s) # rest"
  using assms
proof (induction rest arbitrary: s cur)
  case Nil
  then show ?case by (simp add: split_scan_no_sep)
next
  case (Cons r rest)
  then show ?case by (simp add: split_scan_append_sep)
qed

lemma join_str_hd_append: "join_str sep ((p @ s) # rest) = p @ join_str sep (s # rest)"
  by (cases rest) simp_all

lemma join_str_last_append:
  "join_str sep (xs @ [x @ e]) = join_str sep (xs @ [x]) @ e"
proof (induction xs)
  case Nil
  then show ?case by simp
next
  case (Cons a xs)
  then show ?case by (cases xs) simp_all
qed

lemma Path_components:
  assumes "\<forall>x \<in> set (s # rest). CHR ''/'' \<notin> set x"
    and "\<forall>x \<in> set rest. x \<noteq> [] \<and> x \<noteq> ''.''"
  shows "Path (''myIcon_'' @ join_str ''/'' (s # rest)) = (''myIcon_'' @ s) # rest"
proof -
  have "split_str CHR ''/'' (''myIcon_'' @ join_str ''/'' (s # rest))
      = split_scan CHR ''/'' ''myIcon_'' (join_str ''/'' (s # rest))"
    unfolding split_str_def by (subst split_scan_prefix) simp_all
  also have "\<dots> = (''myIcon_'' @ s) # rest"
    using split_scan_join [OF assms(1), of "''myIcon_''"] by simp
  finally have sp: "split_str CHR ''/'' (''myIcon_'' @ join_str ''/'' (s # rest))
      = (''myIcon_'' @ s) # rest" .
  have "filter (\<lambda>c. c \<noteq> [] \<and> c \<noteq> ''.'') rest = rest"
    using assms(2) by (induction rest) auto
  then show ?thesis
    unfolding Path_def sp by simp
qed

lemma suffix_Path_no_dot: "CHR ''.'' \<notin> set nm \<Longrightarrow> suffix_Path nm = []"
  by (simp add: suffix_Path_def)

lemma suffix_Path_trailing_dot: "suffix_Path (b @ ''.'') = []"
  by (simp add: suffix_Path_def)

lemma suffix_Path_no_suffix: "no_suffix nm \<Longrightarrow> suffix_Path nm = []"
proof (cases "CHR ''.'' \<in> set nm")
  case False
  then show ?thesis by (simp add: suffix_Path_no_dot)
next
  case True
  assume ns: "no_suffix nm"
  from True have ne: "nm \<noteq> []" by auto
  from ns True consider "last nm = CHR ''.''" | "hd nm = CHR ''.''" "CHR ''.'' \<notin> set (tl nm)"
    by (auto simp: no_suffix_def)
  then show ?thesis
  proof cases
    case 1
    with ne obtain b where "nm = b @ ''.''"
      by (metis append_butlast_last_id)
    then show ?thesis by (simp add: suffix_Path_trailing_dot)
  next
    case 2
    with ne obtain r where r: "nm = CHR ''.'' # r" "CHR ''.'' \<notin> set r"
      by (cases nm) auto
    then have "takeWhile (\<lambda>c. c \<noteq> CHR ''.'') (rev r @ ''.'') = rev r"
      by (simp add: takeWhile_append)
    with r show ?thesis by (simp add: suffix_Path_def)
  qed
qed


lemma with_suffix_last:
  "with_suffix (front @ [nm]) ''.ico'' =
     Inr (front @ [if suffix_Path nm = [] then nm @ ''.ico''
                   else take (length nm - length (suffix_Path nm)) nm @ ''.ico''])"
  by (simp add: with_suffix_def Let_def)

lemma get_image_path_probe:
  assumes "Path (''myIcon_'' @ X) = front @ [nm]"
  shows "get_image_path fs X =
     probe fs (str_Path (front @ [if suffix_Path nm = [] then nm @ ''.ico''
                   else take (length nm - length (suffix_Path nm)) nm @ ''.ico'']))"
  unfolding get_image_path_def Let_def assms with_suffix_last
  by (simp add: exists_Path_def probe_def)

lemma get_image_path_components:
  assumes "\<forall>x \<in> set (s # rest). CHR ''/'' \<notin> set x"
    and "\<forall>x \<in> set rest. x \<noteq> [] \<and> x \<noteq> ''.''"
    and "no_suffix (last ((''myIcon_'' @ s) # rest))"
  shows "get_image_path fs (join_str ''/'' (s # rest)) =
     probe fs (''myIcon_'' @ join_str ''/'' (s # rest) @ ''.ico'')"
proof -
  let ?parts = "(''myIcon_'' @ s) # rest"
  have P: "Path (''myIcon_'' @ join_str ''/'' (s # rest)) = butlast ?parts @ [last ?parts]"
    using Path_components [OF assms(1,2)] by simp
  have S: "suffix_Path (last ?parts) = []"
    using assms(3) by (rule suffix_Path_no_suffix)
  have "str_Path (butlast ?parts @ [last ?parts @ ''.ico''])
      = join_str ''/'' (butlast ?parts @ [last ?parts]) @ ''.ico''"
    unfolding str_Path_def by (simp only: join_str_last_append) simp
  also have "\<dots> = join_str ''/'' ?parts @ ''.ico''" by simp
  also have "\<dots> = ''myIcon_'' @ join_str ''/'' (s # rest) @ ''.ico''"
    by (simp only: join_str_hd_append append_assoc)
  finally have J: "str_Path (butlast ?parts @ [last ?parts @ ''.ico''])
      = ''myIcon_'' @ join_str ''/'' (s # rest) @ ''.ico''" .
  show ?thesis
    unfolding get_image_path_probe [OF P] S using J by simp
qed





subsection \<open>Selection changes\<close>







text \<open>
  Claim C5. A click that carries the key that is already current changes nothing: the
  tray object (current selection, displayed icon) is returned as it was, nothing is
  appended to the log, no exception is raised, and the only effect is the line
  \<open>No change\<close> on the console.
\<close>

theorem on_click_same_key_noop:
  "project t = k \<Longrightarrow>
     on_click k now (t, w) = (None, t, w\<lparr>console := console w @ [''No change'']\<rparr>)"
  by (simp add: on_click_def py_print_def)

theorem on_click_same_key_noop_witness:
  "on_click (ProjectWorkPackage ''100'' ''1'') example_now (example_tray, example_world)
     = (None, example_tray,
        \<lparr>console = [''No change''], log_sink = [], sink = Accepts,
         openable = {''myIcon_Alpha.ico'', ''myIcon_Build.ico''}\<rparr>)"
  using on_click_same_key_noop
    [of example_tray "ProjectWorkPackage ''100'' ''1''" example_now example_world]
  by (simp add: example_tray_def example_world_def)







subsection \<open>Log records\<close>














subsection \<open>The menu\<close>

text \<open>The catalog the program loads stores every project under its own id.\<close>

lemma od_set_list_all:
  "list_all P d \<Longrightarrow> P (k, v) \<Longrightarrow> list_all P (od_set k v d)"
  by (induction k v d rule: od_set.induct) auto

lemma projects_loop_keyed:
  "keyed_by_id acc \<Longrightarrow> projects_loop fs conf acc = Inr cat \<Longrightarrow> keyed_by_id cat"
proof (induction fs conf acc rule: projects_loop.induct)
  case (1 fs projects)
  then show ?case by simp
next
  case (2 fs k v rest projects)
  then show ?case
    by (auto simp: keyed_by_id_def od_set_list_all split: sum.splits)
qed

lemma load_projects_keyed: "load_projects fs conf = Inr cat \<Longrightarrow> keyed_by_id cat"
  using projects_loop_keyed [of "[]" fs conf cat] by (simp add: load_projects_def keyed_by_id_def)

lemmas eval_defs = load_projects_def Project_init_def get_id_name_def split_str_def
  get_image_path_def Path_def with_suffix_def suffix_Path_def str_Path_def exists_Path_def

lemma example_catalog_loaded: "load_projects example_fs example_conf = Inr example_catalog"
  by (simp add: eval_defs example_fs_def example_conf_def example_catalog_def)

lemma submenu_loop_map:
  "submenu_loop pid wps acc =
     acc @ map (\<lambda>(wid, wp). MenuItem (fst wp) (ProjectWorkPackage pid wid)) wps"
  by (induction pid wps acc rule: submenu_loop.induct) auto

lemma menu_loop_map:
  "keyed_by_id cat \<Longrightarrow> menu_loop cat acc = acc @ map (\<lambda>(pid, p). menu_entry p) cat"
proof (induction cat acc rule: menu_loop.induct)
  case (1 menu_items)
  then show ?case by simp
next
  case (2 pid p rest menu_items)
  then show ?case
    by (auto simp: keyed_by_id_def menu_entry_def submenu_loop_map)
qed

lemma menu_entry_plain: "menu_entry p \<noteq> SEPARATOR" "menu_entry p \<noteq> QuitItem a b"
  by (simp_all add: menu_entry_def)

lemma filter_entries_none:
  "filter (\<lambda>m. m = SEPARATOR) (map (\<lambda>(pid, p). menu_entry p) cat) = []"
  "filter (\<lambda>m. m = QuitItem a b) (map (\<lambda>(pid, p). menu_entry p) cat) = []"
  by (induction cat) (auto simp: menu_entry_plain)

text \<open>
  Claim C8. For a catalog that stores every project under its own id (as every catalog
  the program loads does), the menu is, in catalog order, one entry per project: a radio
  leaf with the project's name keyed by the project's id when the project has at most
  one work-package, else a submenu with one radio leaf per work-package, in order, keyed
  by project id and work-package id. One separator and one Quit entry follow, at the
  end, and there is no other separator or Quit entry.
\<close>

theorem make_menu_shape:
  assumes "keyed_by_id cat"
  shows "make_menu cat = BuildMenu cat
     \<and> length (make_menu cat) = length cat + 2
     \<and> (\<forall>i < length cat. make_menu cat ! i = menu_entry (snd (cat ! i)))
     \<and> make_menu cat ! length cat = SEPARATOR
     \<and> make_menu cat ! (length cat + 1) = QuitItem ''Quit'' ''Menu Exit''
     \<and> length (filter (\<lambda>m. m = SEPARATOR) (make_menu cat)) = 1
     \<and> length (filter (\<lambda>m. m = QuitItem ''Quit'' ''Menu Exit'') (make_menu cat)) = 1"
proof -
  have m: "make_menu cat =
      map (\<lambda>(pid, p). menu_entry p) cat @ [SEPARATOR, QuitItem ''Quit'' ''Menu Exit'']"
    using menu_loop_map [OF assms, of "[]"] by (simp add: make_menu_def)
  have e: "\<forall>i < length cat. make_menu cat ! i = menu_entry (snd (cat ! i))"
    unfolding m by (auto simp: nth_append split: prod.splits)
  have s: "make_menu cat ! length cat = SEPARATOR"
    unfolding m by (simp add: nth_append)
  have q: "make_menu cat ! (length cat + 1) = QuitItem ''Quit'' ''Menu Exit''"
    unfolding m by (simp add: nth_append)
  show ?thesis
    using m e s q by (simp add: BuildMenu_def filter_entries_none)
qed

theorem make_menu_shape_witness:
  "load_projects example_fs example_conf = Inr example_catalog
   \<and> keyed_by_id example_catalog
   \<and> make_menu example_catalog =
       [SubMenu ''Alpha'' [MenuItem ''Setup'' (ProjectWorkPackage ''100'' ''1''),
                           MenuItem ''Build'' (ProjectWorkPackage ''100'' ''2'')],
        MenuItem ''Beta'' (ProjectOnly ''200''),
        SEPARATOR,
        QuitItem ''Quit'' ''Menu Exit'']"
proof -
  have k: "keyed_by_id example_catalog"
    using example_catalog_loaded by (rule load_projects_keyed)
  have b: "BuildMenu example_catalog =
       [SubMenu ''Alpha'' [MenuItem ''Setup'' (ProjectWorkPackage ''100'' ''1''),
                           MenuItem ''Build'' (ProjectWorkPackage ''100'' ''2'')],
        MenuItem ''Beta'' (ProjectOnly ''200''),
        SEPARATOR,
        QuitItem ''Quit'' ''Menu Exit'']"
    by (simp add: BuildMenu_def menu_entry_def example_catalog_def)
  show ?thesis
    using make_menu_shape [OF k] k b example_catalog_loaded by simp
qed

subsection \<open>Startup\<close>

text \<open>
  Claim C1 at the configuration \<^verbatim>\<open>{"100-Alpha": ["1-Setup"]}\<close>: the catalog holds the
  one project under the key \<open>100\<close>, and the default computed for it is the string
  \<open>Alpha\<close>, the project's name, where the claim has the project's id \<open>100\<close>. For the
  example catalog, whose first project has two work-packages, the default is the pair
  of the project's id and its first work-package's id, as the claim says.
\<close>

theorem default_key_carries_name:
  "load_projects \<lparr>files = {}, stat_fails = {}\<rparr> [(''100-Alpha'', [''1-Setup''])] =
      Inr [(''100'', \<lparr>id_prj = ''100'', name_prj = ''Alpha'', icon_prj = None,
                      workpackages = [(''1'', ''Setup'', None)]\<rparr>)]
   \<and> default_key [(''100'', \<lparr>id_prj = ''100'', name_prj = ''Alpha'', icon_prj = None,
                            workpackages = [(''1'', ''Setup'', None)]\<rparr>)]
       = Inr (ProjectOnly ''Alpha'')
   \<and> default_key example_catalog = Inr (ProjectWorkPackage ''100'' ''1'')"
  by (simp add: eval_defs default_key_def example_catalog_def)

text \<open>
  Claim C2 at the same configuration. For every file system the start ends in an
  exception, with nothing printed or logged and no tray constructed. Whatever files
  exist, the default \<open>Alpha\<close> is not a key of the catalog, so the constructor's
  \<^verbatim>\<open>get_project(default)\<close> raises \<^verbatim>\<open>KeyError\<close>; the one way not to get that far is
  an existence check on one of the two icon candidates that itself fails, which raises
  \<^verbatim>\<open>OSError\<close> while the catalog is loaded. At the configuration \<^verbatim>\<open>{"X": []}\<close> with
  no icon file, the lookup succeeds and \<^verbatim>\<open>Image.open(None)\<close> raises.
\<close>

theorem main_start_raises:
  "main_start fs [(''100-Alpha'', [''1-Setup''])] now w
     = (Inl (if ''myIcon_Alpha.ico'' \<in> stat_fails fs \<or> ''myIcon_Setup.ico'' \<in> stat_fails fs
             then OSError else KeyError), w)
   \<and> main_start \<lparr>files = F, stat_fails = {}\<rparr> [(''100-Alpha'', [''1-Setup''])] now w
     = (Inl KeyError, w)
   \<and> main_start \<lparr>files = {}, stat_fails = {}\<rparr> [(''X'', [])] now w = (Inl AttributeError, w)"
proof -
  have p: "get_image_path fs ''Alpha'' = probe fs ''myIcon_Alpha.ico''"
    "get_image_path fs ''Setup'' = probe fs ''myIcon_Setup.ico''" for fs
    using get_image_path_components [of "''Alpha''" "[]" fs]
      get_image_path_components [of "''Setup''" "[]" fs]
    by (simp_all add: no_suffix_def)
  have ld: "load_projects fs [(''100-Alpha'', [''1-Setup''])] =
      (case probe fs ''myIcon_Alpha.ico'' of
         Inl e \<Rightarrow> Inl e
       | Inr ic \<Rightarrow>
           (case probe fs ''myIcon_Setup.ico'' of
              Inl e \<Rightarrow> Inl e
            | Inr wic \<Rightarrow>
                Inr [(''100'', \<lparr>id_prj = ''100'', name_prj = ''Alpha'', icon_prj = ic,
                                workpackages = [(''1'', ''Setup'', wic)]\<rparr>)]))" for fs
    by (simp add: load_projects_def Project_init_def get_id_name_def split_str_def p
        split: sum.splits)
  have a: "main_start fs [(''100-Alpha'', [''1-Setup''])] now w
     = (Inl (if ''myIcon_Alpha.ico'' \<in> stat_fails fs \<or> ''myIcon_Setup.ico'' \<in> stat_fails fs
             then OSError else KeyError), w)" for fs
    by (simp add: main_start_def ld probe_def default_key_def PrjTray_init_def
        get_project_def)
  have b: "main_start \<lparr>files = {}, stat_fails = {}\<rparr> [(''X'', [])] now w
     = (Inl AttributeError, w)"
    by (simp add: main_start_def eval_defs default_key_def PrjTray_init_def get_project_def
        get_wp_icon_def Image_open_def)
  show ?thesis
    using a [of fs] a [of "\<lparr>files = F, stat_fails = {}\<rparr>"] b by simp
qed

end
